theory Spec2Isabelle
  imports Complex_Main "HOL-Library.Char_ord" "HOL-Library.List_Lexorder" "HOL-Library.AList"
begin

section \<open>Python values used by the pipeline\<close>

text \<open>
  Python \<open>float\<close>s are modelled as exact rationals: the rounding error of binary floating
  point is not part of the model. Python \<open>str\<close> is modelled as \<open>string\<close>, a character
  being a code point below 256.
\<close>

type_synonym pyfloat = rat

text \<open>An exception is its class and the text \<open>str(e)\<close> gives.\<close>

datatype exn_kind =
  KeyError | IndexError | TypeError | ValueError | AttributeError | JSONDecodeError
  | TransportError | OSError

datatype exn = Exn exn_kind string

fun exn_str :: "exn \<Rightarrow> string" where
  "exn_str (Exn k msg) = msg"

text \<open>\<open>sum(xs)\<close> adds from the left, starting at 0.\<close>

definition py_sum :: "pyfloat list \<Rightarrow> pyfloat" where
  "py_sum xs = foldl (+) 0 xs"

text \<open>
  \<open>round(x, n)\<close>: the multiple of \<open>10 ^ -n\<close> nearest to \<open>x\<close>, a tie going to the even
  multiple.
\<close>

definition round_half_even :: "rat \<Rightarrow> int" where
  "round_half_even x =
     (let f = \<lfloor>x\<rfloor>; r = x - of_int f
      in if r < 1 / 2 then f
         else if 1 / 2 < r then f + 1
         else if even f then f else f + 1)"

definition py_round :: "pyfloat \<Rightarrow> nat \<Rightarrow> pyfloat" where
  "py_round x n = of_int (round_half_even (x * 10 ^ n)) / 10 ^ n"

section \<open>Confidence scoring (\<open>RAGPipeline._calculate_confidence\<close>)\<close>

definition calculate_confidence :: "pyfloat list \<Rightarrow> pyfloat" where
  "calculate_confidence distances =
     (if distances = [] then 0
      else
        let avg_distance = py_sum distances / of_nat (length distances);
            confidence = max 0 (min 1 (1 - avg_distance / 2))
        in py_round confidence 3)"





section \<open>Enrichment suggestions (\<open>RAGPipeline.suggest_auto_enrichment\<close>)\<close>

record suggestion =
  missing_topic :: string
  suggested_sources :: "string list"
  search_queries :: "string list"

definition make_suggestion :: "string \<Rightarrow> string \<Rightarrow> suggestion" where
  "make_suggestion info query =
     \<lparr> missing_topic = info,
       suggested_sources =
         [ ''Search for '' @ [CHR 0x27] @ info @ [CHR 0x27] @ '' in academic papers'',
           ''Look up '' @ [CHR 0x27] @ info @ [CHR 0x27] @ '' in industry documentation'',
           ''Find recent articles about '' @ [CHR 0x27] @ info @ [CHR 0x27] ],
       search_queries =
         [ info @ '' '' @ query,
           info @ '' best practices'',
           info @ '' latest research'' ] \<rparr>"

text \<open>The \<open>for\<close> loop, appending one suggestion per entry to the list built so far.\<close>

fun suggest_loop :: "string \<Rightarrow> string list \<Rightarrow> suggestion list \<Rightarrow> suggestion list" where
  "suggest_loop query [] suggestions = suggestions"
| "suggest_loop query (info # rest) suggestions =
     suggest_loop query rest (suggestions @ [make_suggestion info query])"

definition suggest_auto_enrichment :: "string list \<Rightarrow> string \<Rightarrow> suggestion list" where
  "suggest_auto_enrichment missing_info query =
     (if missing_info = [] then [] else suggest_loop query missing_info [])"

section \<open>Strings\<close>

text \<open>\<open>str(n)\<close> of a non-negative integer: its decimal digits.\<close>

definition digit_char :: "nat \<Rightarrow> char" where
  "digit_char d = char_of (48 + d)"

fun str_nat :: "nat \<Rightarrow> string" where
  "str_nat n = (if n < 10 then [digit_char n] else str_nat (n div 10) @ [digit_char (n mod 10)])"

declare str_nat.simps [simp del]

text \<open>\<open>sep.join(parts)\<close>.\<close>

fun py_join :: "string \<Rightarrow> string list \<Rightarrow> string" where
  "py_join sep [] = []"
| "py_join sep [x] = x"
| "py_join sep (x # y # ys) = x @ sep @ py_join sep (y # ys)"

text \<open>
  \<open>s.strip()\<close> removes the whitespace at both ends; the whitespace characters below code
  point 256 are the ones \<open>str.isspace\<close> accepts.
\<close>

definition py_isspace :: "char \<Rightarrow> bool" where
  "py_isspace c \<longleftrightarrow>
     (let n = (of_char c :: nat)
      in (9 \<le> n \<and> n \<le> 13) \<or> (28 \<le> n \<and> n \<le> 32) \<or> n = 133 \<or> n = 160)"

definition py_strip :: "string \<Rightarrow> string" where
  "py_strip s = rev (dropWhile py_isspace (rev (dropWhile py_isspace s)))"

section \<open>JSON values\<close>

text \<open>
  What \<open>json.loads\<close> returns: \<open>None\<close>, a \<open>bool\<close>, an \<open>int\<close>, a \<open>float\<close>, a \<open>str\<close>, a
  \<open>list\<close> or a \<open>dict\<close>. A \<open>dict\<close> is the list of its items in insertion order.
\<close>

datatype json =
  JNull | JBool bool | JInt int | JFloat pyfloat | JStr string
  | JArr "json list" | JObj "(string \<times> json) list"

fun type_name :: "json \<Rightarrow> string" where
  "type_name JNull = ''NoneType''"
| "type_name (JBool b) = ''bool''"
| "type_name (JInt i) = ''int''"
| "type_name (JFloat x) = ''float''"
| "type_name (JStr s) = ''str''"
| "type_name (JArr xs) = ''list''"
| "type_name (JObj kvs) = ''dict''"

definition not_subscriptable :: "json \<Rightarrow> exn" where
  "not_subscriptable v =
     Exn TypeError ([CHR 0x27] @ type_name v @ [CHR 0x27] @ '' object is not subscriptable'')"

text \<open>\<open>v[key]\<close> for a string key.\<close>

fun getitem_str :: "json \<Rightarrow> string \<Rightarrow> exn + json" where
  "getitem_str (JObj kvs) key =
     (case map_of kvs key of
        None \<Rightarrow> Inl (Exn KeyError ([CHR 0x27] @ key @ [CHR 0x27]))
      | Some v \<Rightarrow> Inr v)"
| "getitem_str (JArr xs) key =
     Inl (Exn TypeError ''list indices must be integers or slices, not str'')"
| "getitem_str (JStr s) key =
     Inl (Exn TypeError (''string indices must be integers, not '' @ [CHR 0x27] @ ''str'' @ [CHR 0x27]))"
| "getitem_str v key = Inl (not_subscriptable v)"

text \<open>\<open>v[0]\<close>. The keys of a decoded \<open>dict\<close> are strings, so \<open>0\<close> is never one of them.\<close>

fun getitem_0 :: "json \<Rightarrow> exn + json" where
  "getitem_0 (JArr xs) =
     (case xs of [] \<Rightarrow> Inl (Exn IndexError ''list index out of range'') | x # _ \<Rightarrow> Inr x)"
| "getitem_0 (JStr s) =
     (case s of [] \<Rightarrow> Inl (Exn IndexError ''string index out of range'') | c # _ \<Rightarrow> Inr (JStr [c]))"
| "getitem_0 (JObj kvs) = Inl (Exn KeyError ''0'')"
| "getitem_0 v = Inl (not_subscriptable v)"

text \<open>\<open>d.get(key, default)\<close> on a \<open>dict\<close>.\<close>

definition dict_get :: "(string \<times> json) list \<Rightarrow> string \<Rightarrow> json \<Rightarrow> json" where
  "dict_get kvs key dflt = (case map_of kvs key of None \<Rightarrow> dflt | Some v \<Rightarrow> v)"

text \<open>
  \<open>v.get(key, default)\<close> on any decoded value: only a \<open>dict\<close> has the method.
\<close>

fun py_get :: "json \<Rightarrow> string \<Rightarrow> json \<Rightarrow> exn + json" where
  "py_get (JObj kvs) key dflt = Inr (dict_get kvs key dflt)"
| "py_get v key dflt =
     Inl (Exn AttributeError
       ([CHR 0x27] @ type_name v @ [CHR 0x27] @ '' object has no attribute '' @
        [CHR 0x27] @ ''get'' @ [CHR 0x27]))"

text \<open>Sequencing of steps that may raise.\<close>

definition bind_exn :: "exn + 'a \<Rightarrow> ('a \<Rightarrow> exn + 'b) \<Rightarrow> exn + 'b" where
  "bind_exn r f = (case r of Inl e \<Rightarrow> Inl e | Inr x \<Rightarrow> f x)"

section \<open>Retrieval results\<close>

record metadata =
  document_id :: string
  filename :: string
  chunk_index :: nat
  total_chunks :: nat
  file_path :: string

text \<open>What \<open>DocumentProcessor.search_documents\<close> returns: three parallel lists.\<close>

record search_results =
  documents :: "string list"
  metadatas :: "metadata list"
  distances :: "pyfloat list"

text \<open>A search hit: one chunk's text, its metadata and its distance from the query.\<close>

record hit =
  hit_text :: string
  hit_metadata :: metadata
  hit_distance :: pyfloat

definition results_of_hits :: "hit list \<Rightarrow> search_results" where
  "results_of_hits hits =
     \<lparr> documents = map hit_text hits,
       metadatas = map hit_metadata hits,
       distances = map hit_distance hits \<rparr>"

section \<open>Context assembly (\<open>RAGPipeline._prepare_context\<close>)\<close>

definition context_block :: "metadata \<Rightarrow> string \<Rightarrow> string" where
  "context_block m doc =
     ''Document: '' @ filename m @ [CHR 0x0A] @ ''Content: '' @ doc @ [CHR 0x0A] @ ''---''"

text \<open>
  The loop over \<open>enumerate(documents)\<close>: \<open>metadatas[i]\<close> raises when the metadata list is
  shorter than the document list.
\<close>

fun context_loop :: "metadata list \<Rightarrow> nat \<Rightarrow> string list \<Rightarrow> string list \<Rightarrow> exn + string list" where
  "context_loop ms i [] context_parts = Inr context_parts"
| "context_loop ms i (doc # rest) context_parts =
     (if i < length ms
      then context_loop ms (Suc i) rest (context_parts @ [context_block (ms ! i) doc])
      else Inl (Exn IndexError ''list index out of range''))"

definition prepare_context :: "search_results \<Rightarrow> exn + string" where
  "prepare_context sr =
     bind_exn (context_loop (metadatas sr) 0 (documents sr) [])
       (\<lambda>context_parts. Inr (py_join [CHR 0x0A] context_parts))"

section \<open>Source attribution (\<open>RAGPipeline._prepare_sources\<close>)\<close>

record source =
  src_filename :: string
  src_chunk_index :: nat
  src_total_chunks :: nat
  relevance_score :: pyfloat

fun sources_loop :: "pyfloat list \<Rightarrow> nat \<Rightarrow> metadata list \<Rightarrow> source list \<Rightarrow> source list" where
  "sources_loop ds i [] sources = sources"
| "sources_loop ds i (m # rest) sources =
     sources_loop ds (Suc i) rest
       (sources @
        [\<lparr> src_filename = filename m,
           src_chunk_index = chunk_index m,
           src_total_chunks = total_chunks m,
           relevance_score = (if i < length ds then py_round (1 - (ds ! i) / 2) 3 else 0) \<rparr>])"

definition prepare_sources :: "search_results \<Rightarrow> source list" where
  "prepare_sources sr = sources_loop (distances sr) 0 (metadatas sr) []"

section \<open>The completion call (\<open>RAGPipeline._call_openai_with_completeness_check\<close>)\<close>

record http_response =
  resp_status_code :: nat
  resp_text :: string

text \<open>
  What the vector store returns for one query embedding: each field is a list with one
  entry per query embedding.
\<close>

record query_results =
  q_documents :: "string list list"
  q_metadatas :: "metadata list list"
  q_distances :: "pyfloat list list"

text \<open>
  The collaborators of the pipeline: the vector store queried with the embedded query, the
  HTTP client posting the prompt to the completion endpoint, and the JSON decoder. Each may
  raise. The request is identified by its user prompt; the system prompt, the token limit,
  the temperature and the response format are the same in every request.
\<close>

record rag_env =
  collection_query :: "string \<Rightarrow> exn + query_results"
  client_post :: "string \<Rightarrow> exn + http_response"
  json_loads :: "string \<Rightarrow> exn + json"

text \<open>\<open>DocumentProcessor.search_documents\<close>.\<close>

definition search_documents :: "rag_env \<Rightarrow> string \<Rightarrow> exn + search_results" where
  "search_documents env query =
     bind_exn (collection_query env query)
       (\<lambda>results. Inr
          \<lparr> documents = (if q_documents results \<noteq> [] then hd (q_documents results) else []),
            metadatas = (if q_metadatas results \<noteq> [] then hd (q_metadatas results) else []),
            distances = (if q_distances results \<noteq> [] then hd (q_distances results) else []) \<rparr>)"

definition make_user_prompt :: "string \<Rightarrow> string \<Rightarrow> string" where
  "make_user_prompt query context =
     ''Context from documents:'' @ [CHR 0x0A] @ context @ [CHR 0x0A, CHR 0x0A] @
     ''Question: '' @ query @ [CHR 0x0A, CHR 0x0A] @
     ''Please provide a comprehensive answer and analysis.''"

definition response_dict :: "string \<Rightarrow> string \<Rightarrow> string \<Rightarrow> json" where
  "response_dict a m s =
     JObj [(''answer'', JStr a),
           (''missing_info'', JArr [JStr m]),
           (''enrichment_suggestions'', JArr [JStr s])]"

text \<open>\<open>json.loads(content)\<close>: the argument must be a string.\<close>

definition loads_content :: "rag_env \<Rightarrow> json \<Rightarrow> exn + json" where
  "loads_content env content =
     (case content of
        JStr s \<Rightarrow> json_loads env s
      | _ \<Rightarrow> Inl (Exn TypeError
          (''the JSON object must be str, bytes or bytearray, not '' @ type_name content)))"

text \<open>\<open>result["choices"][0]["message"]["content"]\<close>.\<close>

definition message_content :: "json \<Rightarrow> exn + json" where
  "message_content result =
     bind_exn (getitem_str result ''choices'') (\<lambda>choices.
     bind_exn (getitem_0 choices) (\<lambda>choice.
     bind_exn (getitem_str choice ''message'') (\<lambda>message.
     getitem_str message ''content'')))"

text \<open>
  The body of the \<open>try\<close> block: what it returns, or the exception it raises. The body
  of the response is decoded as \<open>json.loads\<close> decodes its text.
\<close>

definition completion_attempt :: "rag_env \<Rightarrow> string \<Rightarrow> exn + json" where
  "completion_attempt env user_prompt =
     bind_exn (client_post env user_prompt) (\<lambda>response.
       if resp_status_code response = 200
       then
         bind_exn (json_loads env (resp_text response)) (\<lambda>result.
         bind_exn (message_content result) (\<lambda>content.
         loads_content env content))
       else
         Inr (response_dict
           (''Error calling OpenAI API: '' @ str_nat (resp_status_code response) @ '' - '' @
            resp_text response)
           ''API call failed''
           ''Check API configuration and try again''))"

text \<open>
  The call returns the decoded value, or the error dictionary of the \<open>except\<close> branch,
  together with the prompts it posted.
\<close>

definition call_openai_with_completeness_check ::
  "rag_env \<Rightarrow> string \<Rightarrow> string \<Rightarrow> json \<times> string list" where
  "call_openai_with_completeness_check env query context =
     (let user_prompt = make_user_prompt query context
      in (case completion_attempt env user_prompt of
            Inr d \<Rightarrow> d
          | Inl e \<Rightarrow>
              response_dict (''Error generating response: '' @ exn_str e)
                ''System error occurred''
                ''Check system configuration and try again'',
          [user_prompt]))"

section \<open>The answer pipeline (\<open>RAGPipeline.generate_answer\<close>)\<close>

record query_result =
  answer :: json
  confidence :: pyfloat
  missing_info :: json
  enrichment_suggestions :: json
  sources :: "source list"

definition no_documents_result :: query_result where
  "no_documents_result =
     \<lparr> answer = JStr (''I don'' @ [CHR 0x27] @ ''t have any relevant documents to answer your question.''),
       confidence = 0,
       missing_info = JArr [JStr ''No relevant documents found in the knowledge base''],
       enrichment_suggestions =
         JArr [JStr ''Upload documents related to your query'',
               JStr ''Try rephrasing your question with different keywords''],
       sources = [] \<rparr>"

text \<open>
  The result, or the exception that escapes, together with the prompts posted to the
  completion endpoint.
\<close>

definition generate_answer :: "rag_env \<Rightarrow> string \<Rightarrow> (exn + query_result) \<times> string list" where
  "generate_answer env query =
     (case search_documents env query of
        Inl e \<Rightarrow> (Inl e, [])
      | Inr sr \<Rightarrow>
          if documents sr = [] then (Inr no_documents_result, [])
          else
            (case prepare_context sr of
               Inl e \<Rightarrow> (Inl e, [])
             | Inr context \<Rightarrow>
                 (case call_openai_with_completeness_check env query context of
                    (response, posted) \<Rightarrow>
                      let conf = calculate_confidence (distances sr);
                          srcs = prepare_sources sr
                      in (bind_exn (py_get response ''answer'' (JStr [])) (\<lambda>a.
                          bind_exn (py_get response ''missing_info'' (JArr [])) (\<lambda>m.
                          bind_exn (py_get response ''enrichment_suggestions'' (JArr [])) (\<lambda>s.
                          Inr \<lparr> answer = a, confidence = conf, missing_info = m,
                                enrichment_suggestions = s, sources = srcs \<rparr>))),
                          posted))))"

section \<open>The vector store and the file system\<close>

text \<open>
  The collection holds one entry per chunk: its id, its embedding, its text and its
  metadata, in the order in which the entries were added.
\<close>

record entry =
  entry_id :: string
  entry_embedding :: "pyfloat list"
  entry_document :: string
  entry_metadata :: metadata

text \<open>
  \<open>collection.add(embeddings, documents, metadatas, ids)\<close>: the store refuses a batch
  whose lists differ in length, and otherwise adds all the entries of the batch. The
  ids of a batch are built from a fresh UUID, so none of them is in the collection.
\<close>

definition collection_add ::
  "pyfloat list list \<Rightarrow> string list \<Rightarrow> metadata list \<Rightarrow> string list \<Rightarrow> entry list \<Rightarrow>
   exn + entry list" where
  "collection_add embeddings docs metas ids coll =
     (if length embeddings = length ids \<and> length docs = length ids \<and> length metas = length ids
      then Inr (coll @
        map (\<lambda>i. \<lparr> entry_id = ids ! i, entry_embedding = embeddings ! i,
                   entry_document = docs ! i, entry_metadata = metas ! i \<rparr>)
          [0..<length ids])
      else Inl (Exn ValueError ''Unequal lengths for fields''))"

text \<open>\<open>collection.get(where={"document_id": d})\<close> and \<open>collection.delete(where=...)\<close>.\<close>

definition collection_get_where :: "string \<Rightarrow> entry list \<Rightarrow> entry list" where
  "collection_get_where doc_id coll = filter (\<lambda>e. document_id (entry_metadata e) = doc_id) coll"

definition collection_delete_where :: "string \<Rightarrow> entry list \<Rightarrow> entry list" where
  "collection_delete_where doc_id coll =
     filter (\<lambda>e. document_id (entry_metadata e) \<noteq> doc_id) coll"

text \<open>
  The state that deletion works on: the collection, the paths that exist on disk, and the
  paths whose removal the operating system refuses.
\<close>

record world =
  collection :: "entry list"
  files :: "string list"
  locked :: "string list"

text \<open>\<open>os.remove(path)\<close>.\<close>

definition os_remove :: "string \<Rightarrow> world \<Rightarrow> exn + world" where
  "os_remove path w =
     (if path \<in> set (locked w) \<or> path \<notin> set (files w)
      then Inl (Exn OSError ''cannot remove'')
      else Inr (w\<lparr>files := removeAll path (files w)\<rparr>))"

section \<open>Ingestion (\<open>DocumentProcessor.process_and_store_document\<close>)\<close>

text \<open>
  The collaborators of ingestion: the lower-cased suffix of a path, the readers of the
  three kinds of file (the pages of a PDF, the paragraphs of a DOCX, the text of a text
  file), the text splitter, the embedding model and the UUID drawn for the document.
\<close>

record doc_env =
  suffix_lower :: "string \<Rightarrow> string"
  pdf_pages :: "string \<Rightarrow> exn + string list"
  docx_paragraphs :: "string \<Rightarrow> exn + string list"
  read_text :: "string \<Rightarrow> exn + string"
  chunk_text :: "string \<Rightarrow> exn + string list"
  generate_embeddings :: "string list \<Rightarrow> exn + pyfloat list list"
  uuid4 :: string

text \<open>The loops \<open>text += part + "\n"\<close> of the PDF and DOCX readers.\<close>

definition join_lines :: "string list \<Rightarrow> string" where
  "join_lines parts = foldl (\<lambda>text part. text @ part @ [CHR 0x0A]) [] parts"

definition extract_text_from_file :: "doc_env \<Rightarrow> string \<Rightarrow> exn + string" where
  "extract_text_from_file env path =
     (let file_extension = suffix_lower env path
      in if file_extension = ''.pdf''
         then bind_exn (pdf_pages env path) (\<lambda>pages. Inr (join_lines pages))
         else if file_extension = ''.docx''
         then bind_exn (docx_paragraphs env path) (\<lambda>paragraphs. Inr (join_lines paragraphs))
         else if file_extension \<in> set [''.txt'', ''.md'']
         then read_text env path
         else Inl (Exn ValueError (''Unsupported file type: '' @ file_extension)))"

datatype ingest_result =
  IngestSuccess string string nat
  | IngestError string string

text \<open>
  The body of the \<open>try\<close> block: the result and the collection after it, or the exception
  raised. \<open>IngestSuccess\<close> carries the document id, the filename and the number of chunks;
  \<open>IngestError\<close> the filename and the error text.
\<close>

definition ingest_attempt ::
  "doc_env \<Rightarrow> string \<Rightarrow> string \<Rightarrow> entry list \<Rightarrow> exn + ingest_result \<times> entry list" where
  "ingest_attempt env path fname coll =
     bind_exn (extract_text_from_file env path) (\<lambda>text.
       if py_strip text = [] then Inl (Exn ValueError ''No text content found in the document'')
       else
         bind_exn (chunk_text env text) (\<lambda>chunks.
           if chunks = [] then Inl (Exn ValueError ''No chunks generated from the document'')
           else
             bind_exn (generate_embeddings env chunks) (\<lambda>embeddings.
               let doc_id = uuid4 env;
                   chunk_ids = map (\<lambda>i. doc_id @ ''_'' @ str_nat i) [0..<length chunks];
                   metas =
                     map (\<lambda>i. \<lparr> document_id = doc_id, filename = fname, chunk_index = i,
                                total_chunks = length chunks, file_path = path \<rparr>)
                       [0..<length chunks]
               in bind_exn (collection_add embeddings chunks metas chunk_ids coll) (\<lambda>coll'.
                    Inr (IngestSuccess doc_id fname (length chunks), coll')))))"

definition process_and_store_document ::
  "doc_env \<Rightarrow> string \<Rightarrow> string \<Rightarrow> entry list \<Rightarrow> ingest_result \<times> entry list" where
  "process_and_store_document env path fname coll =
     (case ingest_attempt env path fname coll of
        Inr r \<Rightarrow> r
      | Inl e \<Rightarrow> (IngestError fname (exn_str e), coll))"

section \<open>Deletion (\<open>DocumentProcessor.delete_document\<close>)\<close>

text \<open>
  \<open>DeleteSuccess\<close> carries the message, the number of deleted chunks and the filename;
  \<open>DeleteError\<close> the error text.
\<close>

datatype delete_result =
  DeleteSuccess string nat string
  | DeleteError string

definition delete_document :: "string \<Rightarrow> world \<Rightarrow> delete_result \<times> world" where
  "delete_document doc_id w =
     (let results = collection_get_where doc_id (collection w);
          ids = map entry_id results;
          metas = map entry_metadata results
      in if ids = [] then (DeleteError ''Document not found'', w)
         else
           let fname = (if metas \<noteq> [] then filename (hd metas) else ''Unknown'');
               chunk_count = length ids;
               w1 = w\<lparr>collection := collection_delete_where doc_id (collection w)\<rparr>;
               path = (if metas \<noteq> [] then file_path (hd metas) else []);
               w2 = (if path \<noteq> [] \<and> path \<in> set (files w1)
                     then (case os_remove path w1 of Inl e \<Rightarrow> w1 | Inr w' \<Rightarrow> w')
                     else w1)
           in (DeleteSuccess
                 (''Document '' @ [CHR 0x27] @ fname @ [CHR 0x27] @ '' deleted successfully'')
                 chunk_count fname,
               w2))"

section \<open>Listing (\<open>DocumentProcessor.get_all_documents\<close>)\<close>

record chunk_info =
  ci_chunk_index :: nat
  ci_total_chunks :: nat

record document_info =
  di_document_id :: string
  di_filename :: string
  di_total_chunks :: nat
  di_file_path :: string
  di_chunks :: "chunk_info list"

text \<open>
  \<open>DocumentsSuccess\<close> carries the document list, the number of documents and the number of
  chunks; \<open>DocumentsError\<close> the error text.
\<close>

datatype documents_result =
  DocumentsSuccess "document_info list" nat nat
  | DocumentsError string

text \<open>
  The grouping loop. The dictionary \<open>documents\<close> is the list of its items in insertion
  order: a new key is added at the end, and the entry of a key is updated in place.
\<close>

definition group_step :: "metadata \<Rightarrow> (string \<times> document_info) list \<Rightarrow> (string \<times> document_info) list" where
  "group_step m docs =
     (let doc_id = document_id m;
          docs1 =
            (if map_of docs doc_id = None
             then AList.update doc_id
                    \<lparr> di_document_id = doc_id, di_filename = filename m,
                      di_total_chunks = total_chunks m, di_file_path = file_path m,
                      di_chunks = [] \<rparr> docs
             else docs)
      in AList.map_entry doc_id
           (\<lambda>d. d\<lparr>di_chunks := di_chunks d @
                   [\<lparr> ci_chunk_index = chunk_index m, ci_total_chunks = total_chunks m \<rparr>]\<rparr>)
           docs1)"

fun group_loop :: "metadata list \<Rightarrow> (string \<times> document_info) list \<Rightarrow> (string \<times> document_info) list" where
  "group_loop [] docs = docs"
| "group_loop (m # ms) docs = group_loop ms (group_step m docs)"

definition get_all_documents :: "entry list \<Rightarrow> documents_result" where
  "get_all_documents coll =
     (let metas = map entry_metadata coll;
          docs = group_loop metas [];
          document_list = sort_key di_filename (map snd docs)
      in DocumentsSuccess document_list (length document_list) (length metas))"

text \<open>The document list of a listing result.\<close>

definition result_documents :: "documents_result \<Rightarrow> document_info list" where
  "result_documents r = (case r of DocumentsSuccess docs n c \<Rightarrow> docs | DocumentsError e \<Rightarrow> [])"

text \<open>
  The specification's wording of a listed document: the metadata of the chunks of a
  document id, in the order of the store, and the entry built from them.
\<close>

definition chunk_info_of :: "metadata \<Rightarrow> chunk_info" where
  "chunk_info_of m = \<lparr> ci_chunk_index = chunk_index m, ci_total_chunks = total_chunks m \<rparr>"

definition metadatas_of :: "string \<Rightarrow> metadata list \<Rightarrow> metadata list" where
  "metadatas_of k ms = filter (\<lambda>m. document_id m = k) ms"

definition document_info_of :: "string \<Rightarrow> metadata list \<Rightarrow> document_info" where
  "document_info_of k ms =
     \<lparr> di_document_id = k,
       di_filename = filename (hd (metadatas_of k ms)),
       di_total_chunks = total_chunks (hd (metadatas_of k ms)),
       di_file_path = file_path (hd (metadatas_of k ms)),
       di_chunks = map chunk_info_of (metadatas_of k ms) \<rparr>"

section \<open>A JSON decoder for concrete responses\<close>

text \<open>
  The pipeline takes its decoder from the environment. For evaluating it on concrete
  responses, this is a decoder of the JSON texts made of whitespace, \<open>null\<close>, \<open>true\<close>,
  \<open>false\<close>, integers, strings with the single-character escapes, arrays and objects. Numbers
  with a fraction or an exponent, Unicode escapes and the literals \<open>NaN\<close> and \<open>Infinity\<close> are
  outside of it and are reported as decode errors; the position that Python appends to
  the message of a decode error is left out. The first argument of the parsing functions
  bounds the nesting and the number of items, and the length of the text is always enough.
\<close>

definition is_json_ws :: "char \<Rightarrow> bool" where
  "is_json_ws c \<longleftrightarrow> c = CHR '' '' \<or> c = CHR 0x09 \<or> c = CHR 0x0A \<or> c = CHR 0x0D"

definition skip_ws :: "string \<Rightarrow> string" where
  "skip_ws s = dropWhile is_json_ws s"

definition unescape :: "char \<Rightarrow> char option" where
  "unescape e =
     (if e = CHR 0x22 \<or> e = CHR 0x5C \<or> e = CHR ''/'' then Some e
      else if e = CHR ''b'' then Some (CHR 0x08)
      else if e = CHR ''f'' then Some (CHR 0x0C)
      else if e = CHR ''n'' then Some (CHR 0x0A)
      else if e = CHR ''r'' then Some (CHR 0x0D)
      else if e = CHR ''t'' then Some (CHR 0x09)
      else None)"

fun scan_string :: "string \<Rightarrow> string \<Rightarrow> (string \<times> string) option" where
  "scan_string [] acc = None"
| "scan_string [c] acc = (if c = CHR 0x22 then Some (acc, []) else None)"
| "scan_string (c # e # cs) acc =
     (if c = CHR 0x22 then Some (acc, e # cs)
      else if c = CHR 0x5C
      then (case unescape e of None \<Rightarrow> None | Some d \<Rightarrow> scan_string cs (acc @ [d]))
      else if (of_char c :: nat) < 32 then None
      else scan_string (e # cs) (acc @ [c]))"

definition is_digit :: "char \<Rightarrow> bool" where
  "is_digit c \<longleftrightarrow> 48 \<le> (of_char c :: nat) \<and> (of_char c :: nat) \<le> 57"

definition digits_value :: "string \<Rightarrow> nat" where
  "digits_value ds = foldl (\<lambda>n c. 10 * n + (of_char c - 48)) 0 ds"

definition scan_nat :: "string \<Rightarrow> (nat \<times> string) option" where
  "scan_nat s =
     (case s of
        [] \<Rightarrow> None
      | c # cs \<Rightarrow>
          if c = CHR ''0'' then Some (0, cs)
          else if is_digit c then Some (digits_value (takeWhile is_digit s), dropWhile is_digit s)
          else None)"

definition number_ends :: "string \<Rightarrow> bool" where
  "number_ends r \<longleftrightarrow> (case r of [] \<Rightarrow> True | c # _ \<Rightarrow> c \<noteq> CHR ''.'' \<and> c \<noteq> CHR ''e'' \<and> c \<noteq> CHR ''E'')"

definition scan_int :: "string \<Rightarrow> (json \<times> string) option" where
  "scan_int s =
     (case s of
        [] \<Rightarrow> None
      | c # cs \<Rightarrow>
          (case (if c = CHR ''-'' then scan_nat cs else scan_nat s) of
             None \<Rightarrow> None
           | Some (n, r) \<Rightarrow>
               if number_ends r then Some (JInt (if c = CHR ''-'' then - int n else int n), r)
               else None))"

fun parse_value :: "nat \<Rightarrow> string \<Rightarrow> (json \<times> string) option"
  and parse_elements :: "nat \<Rightarrow> string \<Rightarrow> json list \<Rightarrow> (json \<times> string) option"
  and parse_members :: "nat \<Rightarrow> string \<Rightarrow> (string \<times> json) list \<Rightarrow> (json \<times> string) option"
where
  "parse_value 0 s = None"
| "parse_value (Suc n) s =
     (case skip_ws s of
        [] \<Rightarrow> None
      | c # r \<Rightarrow>
          if take 4 (c # r) = ''null'' then Some (JNull, drop 4 (c # r))
          else if take 4 (c # r) = ''true'' then Some (JBool True, drop 4 (c # r))
          else if take 5 (c # r) = ''false'' then Some (JBool False, drop 5 (c # r))
          else if c = CHR 0x22
          then (case scan_string r [] of None \<Rightarrow> None | Some (str, r') \<Rightarrow> Some (JStr str, r'))
          else if c = CHR ''[''
          then (case skip_ws r of
                  [] \<Rightarrow> None
                | d # r' \<Rightarrow> if d = CHR '']'' then Some (JArr [], r') else parse_elements n r [])
          else if c = CHR ''{''
          then (case skip_ws r of
                  [] \<Rightarrow> None
                | d # r' \<Rightarrow> if d = CHR ''}'' then Some (JObj [], r') else parse_members n r [])
          else scan_int (c # r))"
| "parse_elements 0 s acc = None"
| "parse_elements (Suc n) s acc =
     (case parse_value n s of
        None \<Rightarrow> None
      | Some (v, r) \<Rightarrow>
          (case skip_ws r of
             [] \<Rightarrow> None
           | d # r' \<Rightarrow>
               if d = CHR '','' then parse_elements n r' (acc @ [v])
               else if d = CHR '']'' then Some (JArr (acc @ [v]), r')
               else None))"
| "parse_members 0 s acc = None"
| "parse_members (Suc n) s acc =
     (case skip_ws s of
        [] \<Rightarrow> None
      | q # r \<Rightarrow>
          if q \<noteq> CHR 0x22 then None
          else
            (case scan_string r [] of
               None \<Rightarrow> None
             | Some (key, r1) \<Rightarrow>
                 (case skip_ws r1 of
                    [] \<Rightarrow> None
                  | colon # r2 \<Rightarrow>
                      if colon \<noteq> CHR '':'' then None
                      else
                        (case parse_value n r2 of
                           None \<Rightarrow> None
                         | Some (v, r3) \<Rightarrow>
                             (case skip_ws r3 of
                                [] \<Rightarrow> None
                              | d # r4 \<Rightarrow>
                                  if d = CHR '','' then parse_members n r4 (AList.update key v acc)
                                  else if d = CHR ''}'' then Some (JObj (AList.update key v acc), r4)
                                  else None)))))"

definition json_loads_basic :: "string \<Rightarrow> exn + json" where
  "json_loads_basic s =
     (case parse_value (Suc (length s)) s of
        None \<Rightarrow> Inl (Exn JSONDecodeError ''Expecting value'')
      | Some (v, r) \<Rightarrow>
          if skip_ws r = [] then Inr v else Inl (Exn JSONDecodeError ''Extra data''))"

section \<open>Example data\<close>

definition example_metadata :: metadata where
  "example_metadata =
     \<lparr> document_id = ''d1'', filename = ''notes.txt'', chunk_index = 0, total_chunks = 1,
       file_path = ''./uploads/notes.txt'' \<rparr>"

text \<open>What the store returns for one query: no hit, and one hit at distance \<open>1/2\<close>.\<close>

definition no_hit_results :: query_results where
  "no_hit_results = \<lparr> q_documents = [[]], q_metadatas = [[]], q_distances = [[]] \<rparr>"

definition one_hit_results :: query_results where
  "one_hit_results =
     \<lparr> q_documents = [[''A loom weaves.'']], q_metadatas = [[example_metadata]],
       q_distances = [[1 / 2]] \<rparr>"

text \<open>
  The body of a completion whose message content is the given text (a text without
  quotes or backslashes, so that it needs no escaping).
\<close>

definition quoted :: "string \<Rightarrow> string" where
  "quoted s = [CHR 0x22] @ s @ [CHR 0x22]"

definition completion_body :: "string \<Rightarrow> string" where
  "completion_body content =
     ''{'' @ quoted ''choices'' @ '':[{'' @ quoted ''message'' @ '':{'' @
     quoted ''content'' @ '':'' @ quoted content @ ''}}]}''"

text \<open>
  An environment whose store returns the given results, whose endpoint answers every
  request with the given outcome, and whose decoder is \<open>json_loads_basic\<close>.
\<close>

definition example_env :: "query_results \<Rightarrow> exn + http_response \<Rightarrow> rag_env" where
  "example_env results outcome =
     \<lparr> collection_query = (\<lambda>query. Inr results),
       client_post = (\<lambda>prompt. outcome),
       json_loads = json_loads_basic \<rparr>"

text \<open>
  An ingestion environment for a text file with the given content, split into the given
  chunks with the given embeddings, under the document id \<open>u1\<close>.
\<close>

definition example_doc_env :: "string \<Rightarrow> string list \<Rightarrow> pyfloat list list \<Rightarrow> doc_env" where
  "example_doc_env content chunks embeddings =
     \<lparr> suffix_lower = (\<lambda>path. ''.txt''),
       pdf_pages = (\<lambda>path. Inl (Exn ValueError ''not a PDF'')),
       docx_paragraphs = (\<lambda>path. Inl (Exn ValueError ''not a DOCX'')),
       read_text = (\<lambda>path. Inr content),
       chunk_text = (\<lambda>text. Inr chunks),
       generate_embeddings = (\<lambda>texts. Inr embeddings),
       uuid4 = ''u1'' \<rparr>"

definition example_entry :: "string \<Rightarrow> nat \<Rightarrow> entry" where
  "example_entry doc_id i =
     \<lparr> entry_id = doc_id @ ''_'' @ str_nat i, entry_embedding = [1, 0],
       entry_document = ''text'',
       entry_metadata =
         \<lparr> document_id = doc_id, filename = doc_id @ ''.txt'', chunk_index = i,
           total_chunks = 2, file_path = ''./uploads/'' @ doc_id @ ''.txt'' \<rparr> \<rparr>"

text \<open>
  A world with two chunks of the document \<open>d0\<close> and one chunk of \<open>d1\<close>, both files on
  disk, and the given paths locked.
\<close>

definition example_world :: "string list \<Rightarrow> world" where
  "example_world locked_paths =
     \<lparr> collection = [example_entry ''d0'' 0, example_entry ''d1'' 0, example_entry ''d0'' 1],
       files = [''./uploads/d0.txt'', ''./uploads/d1.txt''],
       locked = locked_paths \<rparr>"

section \<open>Properties of confidence scoring\<close>








section \<open>Properties of the enrichment suggestions\<close>

lemma suggest_loop_map:
  "suggest_loop query infos acc = acc @ map (\<lambda>info. make_suggestion info query) infos"
  by (induction infos arbitrary: acc) simp_all

text \<open>
  C9. The suggestions are a function of the missing topics and the query alone (the model
  takes no environment and returns no trace of calls): no topic gives no suggestion, and
  otherwise there is one bundle per topic, in input order, each the templated strings of
  that topic and the query.
\<close>

theorem suggest_auto_enrichment_templates:
  "suggest_auto_enrichment [] query = []
   \<and> suggest_auto_enrichment topics query =
       map (\<lambda>info.
         \<lparr> missing_topic = info,
           suggested_sources =
             [ ''Search for '' @ [CHR 0x27] @ info @ [CHR 0x27] @ '' in academic papers'',
               ''Look up '' @ [CHR 0x27] @ info @ [CHR 0x27] @ '' in industry documentation'',
               ''Find recent articles about '' @ [CHR 0x27] @ info @ [CHR 0x27] ],
           search_queries =
             [ info @ '' '' @ query, info @ '' best practices'', info @ '' latest research'' ] \<rparr>)
         topics
   \<and> length (suggest_auto_enrichment topics query) = length topics
   \<and> map missing_topic (suggest_auto_enrichment topics query) = topics"
proof -
  have eq: "suggest_auto_enrichment ms query = map (\<lambda>info. make_suggestion info query) ms"
    for ms
    by (simp add: suggest_auto_enrichment_def suggest_loop_map)
  have topics: "map missing_topic (map (\<lambda>info. make_suggestion info query) ms) = ms" for ms
    by (induction ms) (simp_all add: make_suggestion_def)
  show ?thesis
    unfolding eq using topics [of topics] by (simp add: make_suggestion_def)
qed

section \<open>Properties of context assembly and source attribution\<close>

lemma context_loop_hits:
  "context_loop (map hit_metadata (pre @ hits)) (length pre) (map hit_text hits) acc =
     Inr (acc @ map (\<lambda>h. context_block (hit_metadata h) (hit_text h)) hits)"
proof (induction hits arbitrary: pre acc)
  case Nil
  show ?case by simp
next
  case (Cons h rest)
  have "context_loop (map hit_metadata (pre @ h # rest)) (length pre) (map hit_text (h # rest)) acc =
        context_loop (map hit_metadata ((pre @ [h]) @ rest)) (length (pre @ [h])) (map hit_text rest)
          (acc @ [context_block (hit_metadata h) (hit_text h)])"
    by (simp add: nth_append)
  also have "\<dots> = Inr ((acc @ [context_block (hit_metadata h) (hit_text h)]) @
                     map (\<lambda>h. context_block (hit_metadata h) (hit_text h)) rest)"
    by (rule Cons.IH)
  finally show ?case by simp
qed

lemma prepare_context_hits:
  "prepare_context (results_of_hits hits) =
     Inr (py_join [CHR 0x0A] (map (\<lambda>h. context_block (hit_metadata h) (hit_text h)) hits))"
  using context_loop_hits [of "[]" hits "[]"]
  by (simp add: prepare_context_def results_of_hits_def bind_exn_def)

text \<open>
  C7. The context assembled from a list of hits is the blocks
  \<open>Document: {filename}\nContent: {text}\n---\<close> of the hits, one per hit in retrieval
  order, joined by single newlines. Nothing is removed or reordered: a hit retrieved
  twice gives its block twice.
\<close>

theorem prepare_context_blocks:
  "prepare_context (results_of_hits hits) =
     Inr (py_join [CHR 0x0A]
       (map (\<lambda>h. ''Document: '' @ filename (hit_metadata h) @ [CHR 0x0A] @
                  ''Content: '' @ hit_text h @ [CHR 0x0A] @ ''---'') hits))
   \<and> prepare_context (results_of_hits [h, h]) =
       Inr ((''Document: '' @ filename (hit_metadata h) @ [CHR 0x0A] @
             ''Content: '' @ hit_text h @ [CHR 0x0A] @ ''---'') @ [CHR 0x0A] @
            (''Document: '' @ filename (hit_metadata h) @ [CHR 0x0A] @
             ''Content: '' @ hit_text h @ [CHR 0x0A] @ ''---''))"
  by (simp add: prepare_context_hits context_block_def)



section \<open>Properties of the answer pipeline\<close>

text \<open>
  C3. When retrieval returns no document, the answer is the fixed result: confidence 0,
  no source, one missing-information entry and two enrichment suggestions; and no prompt
  is posted to the completion endpoint.
\<close>

theorem generate_answer_no_documents:
  assumes "search_documents env query = Inr sr" and "documents sr = []"
  shows "generate_answer env query =
     (Inr \<lparr> answer = JStr (''I don'' @ [CHR 0x27] @
                ''t have any relevant documents to answer your question.''),
            confidence = 0,
            missing_info = JArr [JStr ''No relevant documents found in the knowledge base''],
            enrichment_suggestions =
              JArr [JStr ''Upload documents related to your query'',
                    JStr ''Try rephrasing your question with different keywords''],
            sources = [] \<rparr>,
      [])"
  using assms by (simp add: generate_answer_def no_documents_result_def)

theorem generate_answer_no_documents_witness:
  "search_documents (example_env no_hit_results (Inl (Exn TransportError ''unreachable''))) ''q'' =
     Inr \<lparr> documents = [], metadatas = [], distances = [] \<rparr>
   \<and> documents \<lparr> documents = [], metadatas = [], distances = ([] :: pyfloat list) \<rparr> = []
   \<and> generate_answer (example_env no_hit_results (Inl (Exn TransportError ''unreachable''))) ''q'' =
     (Inr \<lparr> answer = JStr (''I don'' @ [CHR 0x27] @
                ''t have any relevant documents to answer your question.''),
            confidence = 0,
            missing_info = JArr [JStr ''No relevant documents found in the knowledge base''],
            enrichment_suggestions =
              JArr [JStr ''Upload documents related to your query'',
                    JStr ''Try rephrasing your question with different keywords''],
            sources = [] \<rparr>,
      [])"
proof -
  let ?env = "example_env no_hit_results (Inl (Exn TransportError ''unreachable''))"
  let ?sr = "\<lparr> documents = [], metadatas = [], distances = ([] :: pyfloat list) \<rparr>"
  have s: "search_documents ?env ''q'' = Inr ?sr"
    by (simp add: search_documents_def example_env_def no_hit_results_def bind_exn_def)
  have d: "documents ?sr = []"
    by simp
  from generate_answer_no_documents [OF s d] s d show ?thesis
    by simp
qed

lemma generate_answer_dict_response:
  assumes "search_documents env query = Inr sr" and "documents sr \<noteq> []"
    and "prepare_context sr = Inr context"
    and "call_openai_with_completeness_check env query context = (JObj kvs, posted)"
  shows "generate_answer env query =
     (Inr \<lparr> answer = dict_get kvs ''answer'' (JStr []),
            confidence = calculate_confidence (distances sr),
            missing_info = dict_get kvs ''missing_info'' (JArr []),
            enrichment_suggestions = dict_get kvs ''enrichment_suggestions'' (JArr []),
            sources = prepare_sources sr \<rparr>,
      posted)"
  using assms by (simp add: generate_answer_def bind_exn_def Let_def)

lemma call_openai_posted:
  "snd (call_openai_with_completeness_check env query context) = [make_user_prompt query context]"
  by (simp add: call_openai_with_completeness_check_def Let_def)

lemma call_openai_failure:
  assumes "completion_attempt env (make_user_prompt query context) = Inl e"
  shows "call_openai_with_completeness_check env query context =
     (response_dict (''Error generating response: '' @ exn_str e) ''System error occurred''
        ''Check system configuration and try again'',
      [make_user_prompt query context])"
  using assms by (simp add: call_openai_with_completeness_check_def Let_def)

lemma call_openai_success:
  assumes "completion_attempt env (make_user_prompt query context) = Inr d"
  shows "call_openai_with_completeness_check env query context = (d, [make_user_prompt query context])"
  using assms by (simp add: call_openai_with_completeness_check_def Let_def)

lemma completion_attempt_non_200:
  assumes "client_post env prompt = Inr response" and "resp_status_code response \<noteq> 200"
  shows "completion_attempt env prompt =
     Inr (response_dict
       (''Error calling OpenAI API: '' @ str_nat (resp_status_code response) @ '' - '' @
        resp_text response)
       ''API call failed'' ''Check API configuration and try again'')"
  using assms by (simp add: completion_attempt_def bind_exn_def)

lemma completion_attempt_200:
  assumes "client_post env prompt = Inr response" and "resp_status_code response = 200"
    and "json_loads env (resp_text response) = Inr body"
    and "message_content body = Inr (JStr content)"
  shows "completion_attempt env prompt = json_loads env content"
  using assms by (simp add: completion_attempt_def bind_exn_def loads_content_def)

lemma completion_attempt_network_error:
  assumes "client_post env prompt = Inl e"
  shows "completion_attempt env prompt = Inl e"
  using assms by (simp add: completion_attempt_def bind_exn_def)

lemma completion_attempt_body_error:
  assumes "client_post env prompt = Inr response" and "resp_status_code response = 200"
    and "json_loads env (resp_text response) = Inl e"
  shows "completion_attempt env prompt = Inl e"
  using assms by (simp add: completion_attempt_def bind_exn_def)

lemma completion_attempt_content_error:
  assumes "client_post env prompt = Inr response" and "resp_status_code response = 200"
    and "json_loads env (resp_text response) = Inr body"
    and "message_content body = Inr (JStr content)"
    and "json_loads env content = Inl e"
  shows "completion_attempt env prompt = Inl e"
  using assms by (simp add: completion_attempt_200)

lemma generate_answer_response_dict:
  assumes "search_documents env query = Inr sr" and "documents sr \<noteq> []"
    and "prepare_context sr = Inr context"
    and "call_openai_with_completeness_check env query context = (response_dict a m s, posted)"
  shows "generate_answer env query =
     (Inr \<lparr> answer = JStr a,
            confidence = calculate_confidence (distances sr),
            missing_info = JArr [JStr m],
            enrichment_suggestions = JArr [JStr s],
            sources = prepare_sources sr \<rparr>,
      posted)"
  using generate_answer_dict_response [OF assms(1-3) assms(4) [unfolded response_dict_def]]
  by (simp add: dict_get_def)

lemma generate_answer_degrades:
  assumes "search_documents env query = Inr sr" and "documents sr \<noteq> []"
    and "prepare_context sr = Inr context"
  shows "completion_attempt env (make_user_prompt query context) = Inl e \<Longrightarrow>
     generate_answer env query =
     (Inr \<lparr> answer = JStr (''Error generating response: '' @ exn_str e),
            confidence = calculate_confidence (distances sr),
            missing_info = JArr [JStr ''System error occurred''],
            enrichment_suggestions = JArr [JStr ''Check system configuration and try again''],
            sources = prepare_sources sr \<rparr>,
      [make_user_prompt query context])"
  and "client_post env (make_user_prompt query context) = Inr response \<Longrightarrow>
     resp_status_code response \<noteq> 200 \<Longrightarrow>
     generate_answer env query =
     (Inr \<lparr> answer = JStr (''Error calling OpenAI API: '' @ str_nat (resp_status_code response) @
                '' - '' @ resp_text response),
            confidence = calculate_confidence (distances sr),
            missing_info = JArr [JStr ''API call failed''],
            enrichment_suggestions = JArr [JStr ''Check API configuration and try again''],
            sources = prepare_sources sr \<rparr>,
      [make_user_prompt query context])"
proof -
  show "completion_attempt env (make_user_prompt query context) = Inl e \<Longrightarrow> generate_answer env query =
     (Inr \<lparr> answer = JStr (''Error generating response: '' @ exn_str e),
            confidence = calculate_confidence (distances sr),
            missing_info = JArr [JStr ''System error occurred''],
            enrichment_suggestions = JArr [JStr ''Check system configuration and try again''],
            sources = prepare_sources sr \<rparr>,
      [make_user_prompt query context])"
    using generate_answer_response_dict [OF assms] call_openai_failure by simp
  show "client_post env (make_user_prompt query context) = Inr response \<Longrightarrow>
     resp_status_code response \<noteq> 200 \<Longrightarrow>
     generate_answer env query =
     (Inr \<lparr> answer = JStr (''Error calling OpenAI API: '' @ str_nat (resp_status_code response) @
                '' - '' @ resp_text response),
            confidence = calculate_confidence (distances sr),
            missing_info = JArr [JStr ''API call failed''],
            enrichment_suggestions = JArr [JStr ''Check API configuration and try again''],
            sources = prepare_sources sr \<rparr>,
      [make_user_prompt query context])"
    using generate_answer_response_dict [OF assms] call_openai_success completion_attempt_non_200
    by simp
qed

text \<open>
  With at least one document retrieved and the context assembled, an exception escapes
  exactly when the completion call returns something that is not a dictionary.
\<close>

lemma generate_answer_raises_iff:
  assumes "search_documents env query = Inr sr" and "documents sr \<noteq> []"
    and "prepare_context sr = Inr context"
  shows "(\<exists>e. fst (generate_answer env query) = Inl e) \<longleftrightarrow>
         (\<forall>kvs. fst (call_openai_with_completeness_check env query context) \<noteq> JObj kvs)"
proof (cases "call_openai_with_completeness_check env query context")
  case (Pair response posted)
  show ?thesis
    using assms Pair
    by (cases response) (simp_all add: generate_answer_def bind_exn_def Let_def)
qed

text \<open>
  C10. When the endpoint answers 200 and the content of the message decodes to a JSON
  object, the fields of the answer are read from the object as they are, whatever their
  values: a missing \<open>answer\<close> gives the empty string, and a missing \<open>missing_info\<close> or
  \<open>enrichment_suggestions\<close> gives the empty list. No exception is raised.
\<close>

theorem generate_answer_no_schema_validation:
  assumes "search_documents env query = Inr sr" and "documents sr \<noteq> []"
    and "prepare_context sr = Inr context"
    and "client_post env (make_user_prompt query context) = Inr response"
    and "resp_status_code response = 200"
    and "json_loads env (resp_text response) = Inr body"
    and "message_content body = Inr (JStr content)"
    and "json_loads env content = Inr (JObj obj)"
  shows "generate_answer env query =
     (Inr \<lparr> answer = (case map_of obj ''answer'' of None \<Rightarrow> JStr [] | Some v \<Rightarrow> v),
            confidence = calculate_confidence (distances sr),
            missing_info = (case map_of obj ''missing_info'' of None \<Rightarrow> JArr [] | Some v \<Rightarrow> v),
            enrichment_suggestions =
              (case map_of obj ''enrichment_suggestions'' of None \<Rightarrow> JArr [] | Some v \<Rightarrow> v),
            sources = prepare_sources sr \<rparr>,
      [make_user_prompt query context])"
proof -
  have "completion_attempt env (make_user_prompt query context) = Inr (JObj obj)"
    using completion_attempt_200 [OF assms(4-7)] assms(8) by simp
  then have "call_openai_with_completeness_check env query context =
      (JObj obj, [make_user_prompt query context])"
    by (rule call_openai_success)
  from generate_answer_dict_response [OF assms(1-3) this] show ?thesis
    by (simp add: dict_get_def)
qed

theorem generate_answer_no_schema_validation_witness:
  "search_documents
     (example_env one_hit_results
        (Inr \<lparr> resp_status_code = 200, resp_text = completion_body ''{}'' \<rparr>)) ''q'' =
     Inr \<lparr> documents = [''A loom weaves.''], metadatas = [example_metadata],
           distances = [1 / 2] \<rparr>
   \<and> prepare_context
       \<lparr> documents = [''A loom weaves.''], metadatas = [example_metadata],
         distances = [1 / 2] \<rparr> =
     Inr (context_block example_metadata ''A loom weaves.'')
   \<and> json_loads_basic (completion_body ''{}'') =
     Inr (JObj [(''choices'', JArr [JObj [(''message'', JObj [(''content'', JStr ''{}'')])]])])
   \<and> message_content
       (JObj [(''choices'', JArr [JObj [(''message'', JObj [(''content'', JStr ''{}'')])]])]) =
     Inr (JStr ''{}'')
   \<and> json_loads_basic ''{}'' = Inr (JObj [])
   \<and> generate_answer
       (example_env one_hit_results
          (Inr \<lparr> resp_status_code = 200, resp_text = completion_body ''{}'' \<rparr>)) ''q'' =
     (Inr \<lparr> answer = JStr [], confidence = 3 / 4, missing_info = JArr [],
            enrichment_suggestions = JArr [],
            sources = [\<lparr> src_filename = ''notes.txt'', src_chunk_index = 0,
                         src_total_chunks = 1, relevance_score = 3 / 4 \<rparr>] \<rparr>,
      [make_user_prompt ''q'' (context_block example_metadata ''A loom weaves.'')])"
proof -
  let ?response = "\<lparr> resp_status_code = 200, resp_text = completion_body ''{}'' \<rparr>"
  let ?env = "example_env one_hit_results (Inr ?response)"
  let ?sr = "\<lparr> documents = [''A loom weaves.''], metadatas = [example_metadata],
               distances = [1 / 2 :: pyfloat] \<rparr>"
  let ?ctx = "context_block example_metadata ''A loom weaves.''"
  let ?body = "JObj [(''choices'', JArr [JObj [(''message'', JObj [(''content'', JStr ''{}'')])]])]"
  have s: "search_documents ?env ''q'' = Inr ?sr"
    by (simp add: search_documents_def example_env_def one_hit_results_def bind_exn_def)
  have d: "documents ?sr \<noteq> []"
    by simp
  have c: "prepare_context ?sr = Inr ?ctx"
    by (simp add: prepare_context_def bind_exn_def)
  have p: "client_post ?env (make_user_prompt ''q'' ?ctx) = Inr ?response"
    by (simp add: example_env_def)
  have st: "resp_status_code ?response = 200"
    by simp
  have b0: "json_loads_basic (completion_body ''{}'') = Inr ?body"
    by code_simp
  then have b: "json_loads ?env (resp_text ?response) = Inr ?body"
    by (simp add: example_env_def)
  have m: "message_content ?body = Inr (JStr ''{}'')"
    by (simp add: message_content_def bind_exn_def)
  have l0: "json_loads_basic ''{}'' = Inr (JObj [])"
    by code_simp
  then have l: "json_loads ?env ''{}'' = Inr (JObj [])"
    by (simp add: example_env_def)
  have conf: "calculate_confidence (distances ?sr) = 3 / 4"
    by (simp add: calculate_confidence_def py_sum_def py_round_def round_half_even_def Let_def)
  have srcs: "prepare_sources ?sr =
      [\<lparr> src_filename = ''notes.txt'', src_chunk_index = 0, src_total_chunks = 1,
          relevance_score = 3 / 4 \<rparr>]"
    by (simp add: prepare_sources_def example_metadata_def py_round_def round_half_even_def
        Let_def)
  from generate_answer_no_schema_validation [OF s d c p st b m l]
  have "generate_answer ?env ''q'' =
     (Inr \<lparr> answer = JStr [], confidence = 3 / 4, missing_info = JArr [],
            enrichment_suggestions = JArr [],
            sources = [\<lparr> src_filename = ''notes.txt'', src_chunk_index = 0,
                         src_total_chunks = 1, relevance_score = 3 / 4 \<rparr>] \<rparr>,
      [make_user_prompt ''q'' ?ctx])"
    unfolding conf srcs by simp
  with s c b0 m l0 show ?thesis
    by simp
qed

text \<open>
  C1. A failed completion call gives a result and no exception (the two lemmas
  \<open>generate_answer_degrades\<close>). But a 200 response whose message content is JSON that is
  not an object is decoded and returned by the call without an error, and reading
  \<open>answer\<close> from it then raises outside of the \<open>try\<close> block: for the content \<open>[]\<close> an
  \<open>AttributeError\<close> escapes \<open>generate_answer\<close>.
\<close>

theorem generate_answer_list_content_raises:
  "generate_answer
     (example_env one_hit_results
        (Inr \<lparr> resp_status_code = 200, resp_text = completion_body ''[]'' \<rparr>)) ''q'' =
   (Inl (Exn AttributeError
      ([CHR 0x27] @ ''list'' @ [CHR 0x27] @ '' object has no attribute '' @
       [CHR 0x27] @ ''get'' @ [CHR 0x27])),
    [make_user_prompt ''q'' (context_block example_metadata ''A loom weaves.'')])"
  by code_simp

section \<open>Properties of ingestion\<close>

lemma ingest_attempt_success:
  assumes "ingest_attempt env path fname coll = Inr (r, coll')"
  shows "\<exists>text chunks embeddings.
           extract_text_from_file env path = Inr text \<and> py_strip text \<noteq> []
           \<and> chunk_text env text = Inr chunks \<and> chunks \<noteq> []
           \<and> generate_embeddings env chunks = Inr embeddings
           \<and> length embeddings = length chunks
           \<and> r = IngestSuccess (uuid4 env) fname (length chunks)
           \<and> coll' = coll @
               map (\<lambda>i. \<lparr> entry_id = uuid4 env @ ''_'' @ str_nat i,
                          entry_embedding = embeddings ! i,
                          entry_document = chunks ! i,
                          entry_metadata =
                            \<lparr> document_id = uuid4 env, filename = fname, chunk_index = i,
                              total_chunks = length chunks, file_path = path \<rparr> \<rparr>)
                 [0..<length chunks]"
  using assms
  by (auto simp: ingest_attempt_def bind_exn_def collection_add_def Let_def
      split: sum.splits if_splits)

lemma process_error_unchanged:
  assumes "process_and_store_document env path fname coll = (IngestError f msg, coll')"
  shows "coll' = coll"
proof (cases "ingest_attempt env path fname coll")
  case (Inl e)
  with assms show ?thesis by (simp add: process_and_store_document_def)
next
  case (Inr p)
  obtain r c where p: "p = (r, c)" by (cases p)
  from ingest_attempt_success [OF Inr [unfolded p]] obtain chunks :: "string list" where "r = IngestSuccess (uuid4 env) fname (length chunks)"
    by blast
  with assms Inr p show ?thesis by (simp add: process_and_store_document_def)
qed

lemma process_blank:
  assumes "extract_text_from_file env path = Inr text" and "py_strip text = []"
  shows "process_and_store_document env path fname coll =
     (IngestError fname ''No text content found in the document'', coll)"
  using assms by (simp add: process_and_store_document_def ingest_attempt_def bind_exn_def)

lemma process_no_chunks:
  assumes "extract_text_from_file env path = Inr text" and "py_strip text \<noteq> []" and "chunk_text env text = Inr []"
  shows "process_and_store_document env path fname coll =
     (IngestError fname ''No chunks generated from the document'', coll)"
  using assms by (simp add: process_and_store_document_def ingest_attempt_def bind_exn_def)

lemma process_success:
  assumes "process_and_store_document env path fname coll = (IngestSuccess d f n, coll')"
  shows "\<exists>text chunks embeddings.
           extract_text_from_file env path = Inr text \<and> py_strip text \<noteq> []
           \<and> chunk_text env text = Inr chunks \<and> chunks \<noteq> []
           \<and> generate_embeddings env chunks = Inr embeddings
           \<and> length embeddings = length chunks
           \<and> d = uuid4 env \<and> f = fname \<and> n = length chunks
           \<and> coll' = coll @
               map (\<lambda>i. \<lparr> entry_id = d @ ''_'' @ str_nat i,
                          entry_embedding = embeddings ! i,
                          entry_document = chunks ! i,
                          entry_metadata =
                            \<lparr> document_id = d, filename = fname, chunk_index = i,
                              total_chunks = n, file_path = path \<rparr> \<rparr>)
                 [0..<n]"
proof (cases "ingest_attempt env path fname coll")
  case (Inl e)
  with assms show ?thesis by (simp add: process_and_store_document_def)
next
  case (Inr p)
  with assms have "ingest_attempt env path fname coll = Inr (IngestSuccess d f n, coll')"
    by (simp add: process_and_store_document_def)
  from ingest_attempt_success [OF this] show ?thesis
    by auto
qed

text \<open>
  C5. An ingestion whose extracted text is blank after stripping, or whose text gives no
  chunk, returns the error of the empty document and leaves the collection as it was. A
  successful ingestion has embedded every chunk and adds to the collection, in one
  \<open>add\<close>, exactly one entry per chunk, with the ids \<open>{document_id}_{index}\<close> for the
  indices \<open>0..total_chunks - 1\<close> under the UUID drawn for it. Every ingestion that returns
  an error leaves the collection as it was.
\<close>

theorem process_and_store_document_all_or_nothing:
  "(extract_text_from_file env path = Inr content \<and> py_strip content = [] \<longrightarrow>
      process_and_store_document env path fname coll =
        (IngestError fname ''No text content found in the document'', coll))
   \<and> (extract_text_from_file env path = Inr content \<and> py_strip content \<noteq> [] \<and>
      chunk_text env content = Inr [] \<longrightarrow>
      process_and_store_document env path fname coll =
        (IngestError fname ''No chunks generated from the document'', coll))
   \<and> (process_and_store_document env path fname coll = (IngestSuccess d f n, coll') \<longrightarrow>
      d = uuid4 env \<and> f = fname \<and> 0 < n
      \<and> (\<exists>extracted chunks embeddings.
            extract_text_from_file env path = Inr extracted
            \<and> chunk_text env extracted = Inr chunks \<and> length chunks = n
            \<and> generate_embeddings env chunks = Inr embeddings \<and> length embeddings = n
            \<and> collection_add embeddings chunks
                 (map (\<lambda>i. \<lparr> document_id = d, filename = fname, chunk_index = i,
                              total_chunks = n, file_path = path \<rparr>) [0..<n])
                 (map (\<lambda>i. d @ ''_'' @ str_nat i) [0..<n]) coll = Inr coll')
      \<and> take (length coll) coll' = coll
      \<and> map entry_id (drop (length coll) coll') = map (\<lambda>i. d @ ''_'' @ str_nat i) [0..<n]
      \<and> map (document_id \<circ> entry_metadata) (drop (length coll) coll') = replicate n d
      \<and> map (chunk_index \<circ> entry_metadata) (drop (length coll) coll') = [0..<n])
   \<and> (process_and_store_document env path fname coll = (IngestError f msg, coll') \<longrightarrow>
      coll' = coll)"
proof (intro conjI impI)
  assume "extract_text_from_file env path = Inr content \<and> py_strip content = []"
  then show "process_and_store_document env path fname coll =
      (IngestError fname ''No text content found in the document'', coll)"
    by (simp add: process_blank)
next
  assume "extract_text_from_file env path = Inr content \<and> py_strip content \<noteq> [] \<and>
      chunk_text env content = Inr []"
  then show "process_and_store_document env path fname coll =
      (IngestError fname ''No chunks generated from the document'', coll)"
    by (simp add: process_no_chunks)
next
  assume "process_and_store_document env path fname coll = (IngestError f msg, coll')"
  then show "coll' = coll"
    by (rule process_error_unchanged)
next
  assume a: "process_and_store_document env path fname coll = (IngestSuccess d f n, coll')"
  from process_success [OF a] obtain extracted chunks embeddings where
    x: "extract_text_from_file env path = Inr extracted"
    and c: "chunk_text env extracted = Inr chunks" "chunks \<noteq> []"
    and e: "generate_embeddings env chunks = Inr embeddings" "length embeddings = length chunks"
    and d: "d = uuid4 env" "f = fname" "n = length chunks"
    and coll': "coll' = coll @
               map (\<lambda>i. \<lparr> entry_id = d @ ''_'' @ str_nat i,
                          entry_embedding = embeddings ! i,
                          entry_document = chunks ! i,
                          entry_metadata =
                            \<lparr> document_id = d, filename = fname, chunk_index = i,
                              total_chunks = n, file_path = path \<rparr> \<rparr>)
                 [0..<n]"
    by blast
  show "d = uuid4 env" "f = fname" "0 < n"
    using d c by simp_all
  show "take (length coll) coll' = coll"
    by (simp add: coll')
  show "map entry_id (drop (length coll) coll') = map (\<lambda>i. d @ ''_'' @ str_nat i) [0..<n]"
    by (simp add: coll' comp_def)
  show "map (document_id \<circ> entry_metadata) (drop (length coll) coll') = replicate n d"
    by (simp add: coll' comp_def map_replicate_const)
  show "map (chunk_index \<circ> entry_metadata) (drop (length coll) coll') = [0..<n]"
    by (simp add: coll' comp_def)
  have "collection_add embeddings chunks
          (map (\<lambda>i. \<lparr> document_id = d, filename = fname, chunk_index = i,
                       total_chunks = n, file_path = path \<rparr>) [0..<n])
          (map (\<lambda>i. d @ ''_'' @ str_nat i) [0..<n]) coll = Inr coll'"
    using e d by (simp add: collection_add_def coll')
  with x c e d show "\<exists>extracted chunks embeddings.
            extract_text_from_file env path = Inr extracted
            \<and> chunk_text env extracted = Inr chunks \<and> length chunks = n
            \<and> generate_embeddings env chunks = Inr embeddings \<and> length embeddings = n
            \<and> collection_add embeddings chunks
                 (map (\<lambda>i. \<lparr> document_id = d, filename = fname, chunk_index = i,
                              total_chunks = n, file_path = path \<rparr>) [0..<n])
                 (map (\<lambda>i. d @ ''_'' @ str_nat i) [0..<n]) coll = Inr coll'"
    by auto
qed

theorem process_and_store_document_all_or_nothing_witness:
  "extract_text_from_file (example_doc_env [CHR '' '', CHR 0x0A] [''x''] [[1]]) ''./uploads/a.txt'' =
     Inr [CHR '' '', CHR 0x0A]
   \<and> py_strip [CHR '' '', CHR 0x0A] = []
   \<and> process_and_store_document (example_doc_env [CHR '' '', CHR 0x0A] [''x''] [[1]])
       ''./uploads/a.txt'' ''a.txt'' [example_entry ''d0'' 0] =
     (IngestError ''a.txt'' ''No text content found in the document'', [example_entry ''d0'' 0])
   \<and> extract_text_from_file (example_doc_env ''alpha'' [] []) ''./uploads/a.txt'' = Inr ''alpha''
   \<and> py_strip ''alpha'' \<noteq> []
   \<and> chunk_text (example_doc_env ''alpha'' [] []) ''alpha'' = Inr []
   \<and> process_and_store_document (example_doc_env ''alpha'' [] [])
       ''./uploads/a.txt'' ''a.txt'' [example_entry ''d0'' 0] =
     (IngestError ''a.txt'' ''No chunks generated from the document'', [example_entry ''d0'' 0])
   \<and> process_and_store_document
       (example_doc_env ''alpha beta'' [''alpha'', ''beta''] [[1, 0], [0, 1]])
       ''./uploads/a.txt'' ''a.txt'' [example_entry ''d0'' 0] =
     (IngestSuccess ''u1'' ''a.txt'' 2,
      [example_entry ''d0'' 0,
       \<lparr> entry_id = ''u1_0'', entry_embedding = [1, 0], entry_document = ''alpha'',
         entry_metadata = \<lparr> document_id = ''u1'', filename = ''a.txt'', chunk_index = 0,
           total_chunks = 2, file_path = ''./uploads/a.txt'' \<rparr> \<rparr>,
       \<lparr> entry_id = ''u1_1'', entry_embedding = [0, 1], entry_document = ''beta'',
         entry_metadata = \<lparr> document_id = ''u1'', filename = ''a.txt'', chunk_index = 1,
           total_chunks = 2, file_path = ''./uploads/a.txt'' \<rparr> \<rparr>])
   \<and> map (\<lambda>i. ''u1'' @ ''_'' @ str_nat i) [0..<2] = [''u1_0'', ''u1_1'']
   \<and> process_and_store_document (example_doc_env ''alpha beta'' [''alpha'', ''beta''] [[1, 0]])
       ''./uploads/a.txt'' ''a.txt'' [example_entry ''d0'' 0] =
     (IngestError ''a.txt'' ''Unequal lengths for fields'', [example_entry ''d0'' 0])"
proof -
  let ?blank = "example_doc_env [CHR '' '', CHR 0x0A] [''x''] [[1]]"
  let ?nochunk = "example_doc_env ''alpha'' [] []"
  let ?ok = "example_doc_env ''alpha beta'' [''alpha'', ''beta''] [[1, 0], [0, 1]]"
  let ?short = "example_doc_env ''alpha beta'' [''alpha'', ''beta''] [[1, 0]]"
  let ?coll = "[example_entry ''d0'' 0]"
  let ?new = "[\<lparr> entry_id = ''u1_0'', entry_embedding = [1, 0], entry_document = ''alpha'',
         entry_metadata = \<lparr> document_id = ''u1'', filename = ''a.txt'', chunk_index = 0,
           total_chunks = 2, file_path = ''./uploads/a.txt'' \<rparr> \<rparr>,
       \<lparr> entry_id = ''u1_1'', entry_embedding = [0, 1], entry_document = ''beta'',
         entry_metadata = \<lparr> document_id = ''u1'', filename = ''a.txt'', chunk_index = 1,
           total_chunks = 2, file_path = ''./uploads/a.txt'' \<rparr> \<rparr>]"
  have b1: "extract_text_from_file ?blank ''./uploads/a.txt'' = Inr [CHR '' '', CHR 0x0A]"
    by code_simp
  have b2: "py_strip [CHR '' '', CHR 0x0A] = []"
    by code_simp
  from process_and_store_document_all_or_nothing
    [where env = ?blank and path = "''./uploads/a.txt''" and content = "[CHR '' '', CHR 0x0A]"
       and fname = "''a.txt''" and coll = ?coll] b1 b2
  have r1: "process_and_store_document ?blank ''./uploads/a.txt'' ''a.txt'' ?coll =
      (IngestError ''a.txt'' ''No text content found in the document'', ?coll)"
    by blast
  have n1: "extract_text_from_file ?nochunk ''./uploads/a.txt'' = Inr ''alpha''"
    by code_simp
  have n2: "py_strip ''alpha'' \<noteq> []"
    by code_simp
  have n3: "chunk_text ?nochunk ''alpha'' = Inr []"
    by code_simp
  from process_and_store_document_all_or_nothing
    [where env = ?nochunk and path = "''./uploads/a.txt''" and content = "''alpha''"
       and fname = "''a.txt''" and coll = ?coll] n1 n2 n3
  have r2: "process_and_store_document ?nochunk ''./uploads/a.txt'' ''a.txt'' ?coll =
      (IngestError ''a.txt'' ''No chunks generated from the document'', ?coll)"
    by blast
  have s1: "process_and_store_document ?ok ''./uploads/a.txt'' ''a.txt'' ?coll =
      (IngestSuccess ''u1'' ''a.txt'' 2, ?coll @ ?new)"
    by code_simp
  from process_and_store_document_all_or_nothing
    [where env = ?ok and path = "''./uploads/a.txt''" and fname = "''a.txt''" and coll = ?coll
       and d = "''u1''" and f = "''a.txt''" and n = 2 and coll' = "?coll @ ?new"] s1
  have "map entry_id (drop (length ?coll) (?coll @ ?new)) =
      map (\<lambda>i. ''u1'' @ ''_'' @ str_nat i) [0..<2]"
    by blast
  then have r3: "map (\<lambda>i. ''u1'' @ ''_'' @ str_nat i) [0..<2] = [''u1_0'', ''u1_1'']"
    by simp
  have e1: "process_and_store_document ?short ''./uploads/a.txt'' ''a.txt'' ?coll =
      (IngestError ''a.txt'' ''Unequal lengths for fields'', ?coll)"
    by code_simp
  from b1 b2 r1 n1 n2 n3 r2 s1 r3 e1 show ?thesis
    by simp
qed

section \<open>Properties of deletion\<close>

lemma length_get_delete:
  "length (collection_delete_where doc_id coll) + length (collection_get_where doc_id coll) =
     length coll"
  unfolding collection_delete_where_def collection_get_where_def
  by (induction coll) simp_all

lemma delete_document_not_found:
  assumes "collection_get_where doc_id (collection w) = []"
  shows "delete_document doc_id w = (DeleteError ''Document not found'', w)"
  using assms by (simp add: delete_document_def)

lemma delete_document_found:
  assumes "collection_get_where doc_id (collection w) = e # es"
  shows "delete_document doc_id w =
     (DeleteSuccess
        (''Document '' @ [CHR 0x27] @ filename (entry_metadata e) @ [CHR 0x27] @
         '' deleted successfully'')
        (length (e # es)) (filename (entry_metadata e)),
      w\<lparr> collection := collection_delete_where doc_id (collection w),
         files :=
           (if file_path (entry_metadata e) \<noteq> [] \<and>
               file_path (entry_metadata e) \<in> set (files w) \<and>
               file_path (entry_metadata e) \<notin> set (locked w)
            then removeAll (file_path (entry_metadata e)) (files w)
            else files w) \<rparr>)"
  using assms by (simp add: delete_document_def Let_def os_remove_def)

text \<open>
  C6. Deleting a document id that no chunk carries returns the error
  \<open>Document not found\<close> and changes nothing. Deleting an id that chunks carry returns
  success with their number, removes exactly those chunks from the collection (its
  length goes down by that number, the other entries stay in order), and then removes the
  backing file of the first of them if it exists; when the removal is refused the file
  stays and the result is success all the same.
\<close>

theorem delete_document_all_chunks:
  "(filter (\<lambda>x. document_id (entry_metadata x) = doc_id) (collection w) = [] \<longrightarrow>
      delete_document doc_id w = (DeleteError ''Document not found'', w))
   \<and> (filter (\<lambda>x. document_id (entry_metadata x) = doc_id) (collection w) = e # es \<longrightarrow>
      fst (delete_document doc_id w) =
        DeleteSuccess
          (''Document '' @ [CHR 0x27] @ filename (entry_metadata e) @ [CHR 0x27] @
           '' deleted successfully'')
          (length (e # es)) (filename (entry_metadata e))
      \<and> collection (snd (delete_document doc_id w)) =
          filter (\<lambda>x. document_id (entry_metadata x) \<noteq> doc_id) (collection w)
      \<and> length (collection (snd (delete_document doc_id w))) + length (e # es) =
          length (collection w)
      \<and> files (snd (delete_document doc_id w)) =
          (if file_path (entry_metadata e) \<noteq> [] \<and>
              file_path (entry_metadata e) \<in> set (files w) \<and>
              file_path (entry_metadata e) \<notin> set (locked w)
           then removeAll (file_path (entry_metadata e)) (files w)
           else files w)
      \<and> locked (snd (delete_document doc_id w)) = locked w)"
proof (intro conjI impI)
  assume "filter (\<lambda>x. document_id (entry_metadata x) = doc_id) (collection w) = []"
  then show "delete_document doc_id w = (DeleteError ''Document not found'', w)"
    by (simp add: delete_document_not_found collection_get_where_def)
next
  assume "filter (\<lambda>x. document_id (entry_metadata x) = doc_id) (collection w) = e # es"
  then have g: "collection_get_where doc_id (collection w) = e # es"
    by (simp add: collection_get_where_def)
  note r = delete_document_found [OF g]
  show "fst (delete_document doc_id w) =
        DeleteSuccess
          (''Document '' @ [CHR 0x27] @ filename (entry_metadata e) @ [CHR 0x27] @
           '' deleted successfully'')
          (length (e # es)) (filename (entry_metadata e))"
    by (simp add: r)
  show "collection (snd (delete_document doc_id w)) =
          filter (\<lambda>x. document_id (entry_metadata x) \<noteq> doc_id) (collection w)"
    by (simp add: r collection_delete_where_def)
  show "length (collection (snd (delete_document doc_id w))) + length (e # es) =
          length (collection w)"
    using length_get_delete [of doc_id "collection w"] by (simp add: r g)
  show "files (snd (delete_document doc_id w)) =
          (if file_path (entry_metadata e) \<noteq> [] \<and>
              file_path (entry_metadata e) \<in> set (files w) \<and>
              file_path (entry_metadata e) \<notin> set (locked w)
           then removeAll (file_path (entry_metadata e)) (files w)
           else files w)"
    by (simp add: r)
  show "locked (snd (delete_document doc_id w)) = locked w"
    by (simp add: r)
qed

theorem delete_document_all_chunks_witness:
  "filter (\<lambda>x. document_id (entry_metadata x) = ''zz'') (collection (example_world [])) = []
   \<and> delete_document ''zz'' (example_world []) =
       (DeleteError ''Document not found'', example_world [])
   \<and> filter (\<lambda>x. document_id (entry_metadata x) = ''d0'') (collection (example_world [])) =
       [example_entry ''d0'' 0, example_entry ''d0'' 1]
   \<and> fst (delete_document ''d0'' (example_world [])) =
       DeleteSuccess (''Document '' @ [CHR 0x27] @ ''d0.txt'' @ [CHR 0x27] @ '' deleted successfully'')
         2 ''d0.txt''
   \<and> collection (snd (delete_document ''d0'' (example_world []))) = [example_entry ''d1'' 0]
   \<and> files (snd (delete_document ''d0'' (example_world []))) = [''./uploads/d1.txt'']
   \<and> fst (delete_document ''d0'' (example_world [''./uploads/d0.txt''])) =
       DeleteSuccess (''Document '' @ [CHR 0x27] @ ''d0.txt'' @ [CHR 0x27] @ '' deleted successfully'')
         2 ''d0.txt''
   \<and> collection (snd (delete_document ''d0'' (example_world [''./uploads/d0.txt'']))) =
       [example_entry ''d1'' 0]
   \<and> files (snd (delete_document ''d0'' (example_world [''./uploads/d0.txt'']))) =
       [''./uploads/d0.txt'', ''./uploads/d1.txt'']"
proof -
  let ?e = "example_entry ''d0'' 0"
  let ?es = "[example_entry ''d0'' 1]"
  have h0: "filter (\<lambda>x. document_id (entry_metadata x) = ''zz'') (collection (example_world [])) = []"
    by code_simp
  have h1: "filter (\<lambda>x. document_id (entry_metadata x) = ''d0'') (collection (example_world l)) =
      ?e # ?es" for l
    by (simp add: example_world_def example_entry_def)
  have k: "filter (\<lambda>x. document_id (entry_metadata x) \<noteq> ''d0'') (collection (example_world l)) =
      [example_entry ''d1'' 0]" for l
    by (simp add: example_world_def example_entry_def)
  have m: "filename (entry_metadata ?e) = ''d0.txt''"
    "file_path (entry_metadata ?e) = ''./uploads/d0.txt''"
    by (simp_all add: example_entry_def)
  have f0: "files (example_world l) = [''./uploads/d0.txt'', ''./uploads/d1.txt'']"
    "locked (example_world l) = l" for l
    by (simp_all add: example_world_def)
  from delete_document_all_chunks [where doc_id = "''zz''" and w = "example_world []"] h0
  have r0: "delete_document ''zz'' (example_world []) =
      (DeleteError ''Document not found'', example_world [])"
    by blast
  note a = delete_document_all_chunks
    [where doc_id = "''d0''" and w = "example_world []" and e = ?e and es = ?es,
     THEN conjunct2, rule_format, OF h1]
  note b = delete_document_all_chunks
    [where doc_id = "''d0''" and w = "example_world [''./uploads/d0.txt'']" and e = ?e
       and es = ?es,
     THEN conjunct2, rule_format, OF h1]
  from a have a1: "fst (delete_document ''d0'' (example_world [])) =
       DeleteSuccess (''Document '' @ [CHR 0x27] @ ''d0.txt'' @ [CHR 0x27] @ '' deleted successfully'')
         2 ''d0.txt''"
    and a2: "collection (snd (delete_document ''d0'' (example_world []))) = [example_entry ''d1'' 0]"
    and a3: "files (snd (delete_document ''d0'' (example_world []))) = [''./uploads/d1.txt'']"
    by (simp_all add: m k f0)
  from b have b1: "fst (delete_document ''d0'' (example_world [''./uploads/d0.txt''])) =
       DeleteSuccess (''Document '' @ [CHR 0x27] @ ''d0.txt'' @ [CHR 0x27] @ '' deleted successfully'')
         2 ''d0.txt''"
    and b2: "collection (snd (delete_document ''d0'' (example_world [''./uploads/d0.txt'']))) =
       [example_entry ''d1'' 0]"
    and b3: "files (snd (delete_document ''d0'' (example_world [''./uploads/d0.txt'']))) =
       [''./uploads/d0.txt'', ''./uploads/d1.txt'']"
    by (simp_all add: m k f0)
  from h0 r0 h1 [of "[]"] a1 a2 a3 b1 b2 b3 show ?thesis
    by simp
qed

section \<open>Properties of listing\<close>

lemma map_of_group_step:
  "map_of (group_step m docs) k =
     (if k = document_id m
      then (case map_of docs k of
              None \<Rightarrow> Some \<lparr> di_document_id = k, di_filename = filename m,
                              di_total_chunks = total_chunks m, di_file_path = file_path m,
                              di_chunks = [chunk_info_of m] \<rparr>
            | Some d \<Rightarrow> Some (d\<lparr>di_chunks := di_chunks d @ [chunk_info_of m]\<rparr>))
      else map_of docs k)"
  by (auto simp: group_step_def Let_def map_of_map_entry update_conv' chunk_info_of_def
      split: option.splits)

lemma keys_group_step:
  "fst ` set (group_step m docs) = insert (document_id m) (fst ` set docs)"
  by (auto simp: group_step_def Let_def dom_map_entry dom_update map_of_eq_None_iff)

lemma distinct_group_step:
  "distinct (map fst docs) \<Longrightarrow> distinct (map fst (group_step m docs))"
  by (simp add: group_step_def Let_def distinct_map_entry distinct_update)

lemma keys_group_loop:
  "fst ` set (group_loop ms docs) = fst ` set docs \<union> document_id ` set ms"
  by (induction ms arbitrary: docs) (auto simp: keys_group_step)

lemma distinct_group_loop:
  "distinct (map fst docs) \<Longrightarrow> distinct (map fst (group_loop ms docs))"
  by (induction ms arbitrary: docs) (simp_all add: distinct_group_step)

lemma map_of_group_loop:
  "map_of (group_loop ms docs) k =
     (case map_of docs k of
        Some d \<Rightarrow> Some (d\<lparr>di_chunks := di_chunks d @ map chunk_info_of (metadatas_of k ms)\<rparr>)
      | None \<Rightarrow> (if metadatas_of k ms = [] then None else Some (document_info_of k ms)))"
proof (induction ms arbitrary: docs)
  case Nil
  show ?case by (simp add: metadatas_of_def split: option.splits)
next
  case (Cons m ms)
  show ?case
    by (simp add: Cons.IH map_of_group_step metadatas_of_def document_info_of_def
        split: option.splits)
qed

lemma group_loop_entries:
  assumes "(k, d) \<in> set (group_loop ms [])"
  shows "d = document_info_of k ms" and "metadatas_of k ms \<noteq> []"
proof -
  have "distinct (map fst (group_loop ms []))"
    by (rule distinct_group_loop) simp
  with assms have "map_of (group_loop ms []) k = Some d"
    by simp
  then have "(if metadatas_of k ms = [] then None else Some (document_info_of k ms)) = Some d"
    by (simp add: map_of_group_loop)
  then show "d = document_info_of k ms" and "metadatas_of k ms \<noteq> []"
    by (simp_all split: if_splits)
qed

lemma group_loop_ids:
  "map (di_document_id \<circ> snd) (group_loop ms []) = map fst (group_loop ms [])"
proof (rule map_cong [OF refl])
  fix p assume "p \<in> set (group_loop ms [])"
  then have "(fst p, snd p) \<in> set (group_loop ms [])" by simp
  from group_loop_entries(1) [OF this] show "(di_document_id \<circ> snd) p = fst p"
    by (simp add: document_info_of_def)
qed

lemma get_all_documents_docs:
  "get_all_documents coll =
     DocumentsSuccess (result_documents (get_all_documents coll))
       (length (result_documents (get_all_documents coll))) (length coll)"
  by (simp add: get_all_documents_def result_documents_def Let_def)

lemma result_documents_eq:
  "result_documents (get_all_documents coll) =
     sort_key di_filename (map snd (group_loop (map entry_metadata coll) []))"
  by (simp add: get_all_documents_def result_documents_def Let_def)

lemma docs_sorted: "sorted (map di_filename (result_documents (get_all_documents coll)))"
  by (simp add: result_documents_eq)

lemma distinct_map_sort_key: "distinct (map g (sort_key f xs)) = distinct (map g xs)"
  by (simp add: distinct_map)

lemma docs_ids_distinct: "distinct (map di_document_id (result_documents (get_all_documents coll)))"
proof -
  let ?g = "group_loop (map entry_metadata coll) []"
  have "distinct (map fst ?g)"
    by (rule distinct_group_loop) simp
  moreover have "map di_document_id (map snd ?g) = map fst ?g"
    using group_loop_ids [of "map entry_metadata coll"] by (simp only: map_map)
  ultimately have "distinct (map di_document_id (map snd ?g))"
    by (simp only:)
  then show ?thesis
    by (simp only: result_documents_eq distinct_map_sort_key)
qed

lemma docs_ids_set:
  "set (map di_document_id (result_documents (get_all_documents coll))) =
     set (map (document_id \<circ> entry_metadata) coll)"
proof -
  let ?g = "group_loop (map entry_metadata coll) []"
  have "set (map di_document_id (result_documents (get_all_documents coll))) =
      set (map (di_document_id \<circ> snd) ?g)"
    by (simp add: result_documents_eq image_comp)
  also have "\<dots> = fst ` set ?g"
    by (simp add: group_loop_ids)
  also have "\<dots> = set (map (document_id \<circ> entry_metadata) coll)"
    by (simp add: keys_group_loop image_comp)
  finally show ?thesis .
qed

lemma docs_entries:
  assumes "d \<in> set (result_documents (get_all_documents coll))"
  shows "d = document_info_of (di_document_id d) (map entry_metadata coll)"
    and "metadatas_of (di_document_id d) (map entry_metadata coll) \<noteq> []"
proof -
  from assms obtain k where k: "(k, d) \<in> set (group_loop (map entry_metadata coll) [])"
    by (auto simp: result_documents_eq)
  from group_loop_entries [OF k] have d: "d = document_info_of k (map entry_metadata coll)"
    and n: "metadatas_of k (map entry_metadata coll) \<noteq> []"
    by simp_all
  from d have "di_document_id d = k"
    by (simp add: document_info_of_def)
  with d n show "d = document_info_of (di_document_id d) (map entry_metadata coll)"
    and "metadatas_of (di_document_id d) (map entry_metadata coll) \<noteq> []"
    by simp_all
qed

text \<open>
  C8. The listing never fails. It has one entry per document id of the store, sorted by
  filename in ascending order; the entry of a document carries the filename, the total
  chunk count and the file path of the document's first chunk in the store, and the list
  of the chunk indices of all its chunks in the order of the store, as many as the store
  holds for that document. The result also gives the number of documents and of chunks.
\<close>

theorem get_all_documents_grouped_sorted:
  "(let docs = result_documents (get_all_documents coll);
       metas = map entry_metadata coll
    in get_all_documents coll = DocumentsSuccess docs (length docs) (length coll)
       \<and> sorted (map di_filename docs)
       \<and> distinct (map di_document_id docs)
       \<and> set (map di_document_id docs) = set (map document_id metas)
       \<and> (\<forall>d \<in> set docs.
            filter (\<lambda>m. document_id m = di_document_id d) metas \<noteq> []
            \<and> di_filename d = filename (hd (filter (\<lambda>m. document_id m = di_document_id d) metas))
            \<and> di_total_chunks d =
                total_chunks (hd (filter (\<lambda>m. document_id m = di_document_id d) metas))
            \<and> di_file_path d = file_path (hd (filter (\<lambda>m. document_id m = di_document_id d) metas))
            \<and> di_chunks d =
                map (\<lambda>m. \<lparr> ci_chunk_index = chunk_index m, ci_total_chunks = total_chunks m \<rparr>)
                  (filter (\<lambda>m. document_id m = di_document_id d) metas)
            \<and> length (di_chunks d) =
                length (filter (\<lambda>e. document_id (entry_metadata e) = di_document_id d) coll)))"
proof -
  let ?docs = "result_documents (get_all_documents coll)"
  let ?metas = "map entry_metadata coll"
  have entries: "filter (\<lambda>m. document_id m = di_document_id d) ?metas \<noteq> []
      \<and> di_filename d = filename (hd (filter (\<lambda>m. document_id m = di_document_id d) ?metas))
      \<and> di_total_chunks d =
          total_chunks (hd (filter (\<lambda>m. document_id m = di_document_id d) ?metas))
      \<and> di_file_path d = file_path (hd (filter (\<lambda>m. document_id m = di_document_id d) ?metas))
      \<and> di_chunks d =
          map (\<lambda>m. \<lparr> ci_chunk_index = chunk_index m, ci_total_chunks = total_chunks m \<rparr>)
            (filter (\<lambda>m. document_id m = di_document_id d) ?metas)
      \<and> length (di_chunks d) =
          length (filter (\<lambda>e. document_id (entry_metadata e) = di_document_id d) coll)"
    if "d \<in> set ?docs" for d
  proof -
    from docs_entries [OF that]
    have d: "d = document_info_of (di_document_id d) ?metas"
      and n: "metadatas_of (di_document_id d) ?metas \<noteq> []"
      by simp_all
    have f: "di_filename d = di_filename (document_info_of (di_document_id d) ?metas)"
      "di_total_chunks d = di_total_chunks (document_info_of (di_document_id d) ?metas)"
      "di_file_path d = di_file_path (document_info_of (di_document_id d) ?metas)"
      "di_chunks d = di_chunks (document_info_of (di_document_id d) ?metas)"
      using d by simp_all
    have l: "length (filter (\<lambda>m. document_id m = k) ?metas) =
        length (filter (\<lambda>e. document_id (entry_metadata e) = k) coll)" for k
      by (simp add: filter_map comp_def)
    show ?thesis
      using n l [of "di_document_id d"]
      unfolding f by (simp add: document_info_of_def metadatas_of_def chunk_info_of_def)
  qed
  have ids: "set (map di_document_id ?docs) = set (map document_id ?metas)"
    using docs_ids_set [of coll] by (simp add: comp_def)
  show ?thesis
    unfolding Let_def
    using get_all_documents_docs [of coll] docs_sorted [of coll] docs_ids_distinct [of coll]
      ids entries
    by blast
qed

theorem get_all_documents_grouped_sorted_witness:
  "get_all_documents [example_entry ''d1'' 0, example_entry ''d0'' 0, example_entry ''d1'' 1] =
     DocumentsSuccess
       [\<lparr> di_document_id = ''d0'', di_filename = ''d0.txt'', di_total_chunks = 2,
           di_file_path = ''./uploads/d0.txt'',
           di_chunks = [\<lparr> ci_chunk_index = 0, ci_total_chunks = 2 \<rparr>] \<rparr>,
        \<lparr> di_document_id = ''d1'', di_filename = ''d1.txt'', di_total_chunks = 2,
           di_file_path = ''./uploads/d1.txt'',
           di_chunks = [\<lparr> ci_chunk_index = 0, ci_total_chunks = 2 \<rparr>,
                        \<lparr> ci_chunk_index = 1, ci_total_chunks = 2 \<rparr>] \<rparr>]
       2 3
   \<and> \<lparr> di_document_id = ''d1'', di_filename = ''d1.txt'', di_total_chunks = 2,
         di_file_path = ''./uploads/d1.txt'',
         di_chunks = [\<lparr> ci_chunk_index = 0, ci_total_chunks = 2 \<rparr>,
                      \<lparr> ci_chunk_index = 1, ci_total_chunks = 2 \<rparr>] \<rparr>
       \<in> set (result_documents (get_all_documents
               [example_entry ''d1'' 0, example_entry ''d0'' 0, example_entry ''d1'' 1]))
   \<and> map (\<lambda>m. \<lparr> ci_chunk_index = chunk_index m, ci_total_chunks = total_chunks m \<rparr>)
         (filter (\<lambda>m. document_id m = ''d1'')
            (map entry_metadata
               [example_entry ''d1'' 0, example_entry ''d0'' 0, example_entry ''d1'' 1])) =
       [\<lparr> ci_chunk_index = 0, ci_total_chunks = 2 \<rparr>,
        \<lparr> ci_chunk_index = 1, ci_total_chunks = 2 \<rparr>]
   \<and> length (filter (\<lambda>e. document_id (entry_metadata e) = ''d1'')
         [example_entry ''d1'' 0, example_entry ''d0'' 0, example_entry ''d1'' 1]) = 2
   \<and> sorted [''d0.txt'', ''d1.txt'']"
proof -
  let ?coll = "[example_entry ''d1'' 0, example_entry ''d0'' 0, example_entry ''d1'' 1]"
  let ?d0 = "\<lparr> di_document_id = ''d0'', di_filename = ''d0.txt'', di_total_chunks = 2,
           di_file_path = ''./uploads/d0.txt'',
           di_chunks = [\<lparr> ci_chunk_index = 0, ci_total_chunks = 2 \<rparr>] \<rparr>"
  let ?d1 = "\<lparr> di_document_id = ''d1'', di_filename = ''d1.txt'', di_total_chunks = 2,
           di_file_path = ''./uploads/d1.txt'',
           di_chunks = [\<lparr> ci_chunk_index = 0, ci_total_chunks = 2 \<rparr>,
                        \<lparr> ci_chunk_index = 1, ci_total_chunks = 2 \<rparr>] \<rparr>"
  have ev: "get_all_documents ?coll = DocumentsSuccess [?d0, ?d1] 2 3"
    by code_simp
  then have rd: "result_documents (get_all_documents ?coll) = [?d0, ?d1]"
    by (simp add: result_documents_def)
  have mem: "?d1 \<in> set (result_documents (get_all_documents ?coll))"
    unfolding rd by simp
  note T = get_all_documents_grouped_sorted [of ?coll, unfolded Let_def]
  from T have s: "sorted (map di_filename (result_documents (get_all_documents ?coll)))"
    by blast
  from T mem
  have "di_chunks ?d1 =
      map (\<lambda>m. \<lparr> ci_chunk_index = chunk_index m, ci_total_chunks = total_chunks m \<rparr>)
        (filter (\<lambda>m. document_id m = di_document_id ?d1) (map entry_metadata ?coll))"
    and "length (di_chunks ?d1) =
      length (filter (\<lambda>e. document_id (entry_metadata e) = di_document_id ?d1) ?coll)"
    by blast+
  then have c: "map (\<lambda>m. \<lparr> ci_chunk_index = chunk_index m, ci_total_chunks = total_chunks m \<rparr>)
        (filter (\<lambda>m. document_id m = ''d1'') (map entry_metadata ?coll)) =
      [\<lparr> ci_chunk_index = 0, ci_total_chunks = 2 \<rparr>, \<lparr> ci_chunk_index = 1, ci_total_chunks = 2 \<rparr>]"
    and l: "length (filter (\<lambda>e. document_id (entry_metadata e) = ''d1'') ?coll) = 2"
    by (simp_all add: example_entry_def)
  from s have s': "sorted [''d0.txt'', ''d1.txt'']"
    unfolding rd by simp
  from ev mem c l s' show ?thesis
    by (simp only: simp_thms)
qed

end
